theory Spec2Isabelle
  imports Complex_Main
begin

section \<open>Scatter plot core of QuantInvestStrats (\<open>qis/plots/scatter.py\<close>)\<close>

text \<open>
  The module is Python on top of pandas, numpy, scipy, statsmodels, seaborn and matplotlib.
  \<open>calc_ci\<close> is a function of its arrays. \<open>plot_scatter\<close> is a sequence of statements
  on a state: the frames it reads and writes, the figures that exist, and the drawing calls
  made on the axes; its body is cut into the functions below by line ranges of the source.
  Exceptions are values of \<open>py_error\<close>; a function that can raise returns
  \<open>py_error + 'a\<close> with \<open>Inl\<close> for the exception.
\<close>

datatype py_error =
    ValueError string
  | KeyError string
  | IndexError
  | TypeError
  | ZeroDivisionError
  | DelegateError string

subsection \<open>numpy floats\<close>

text \<open>
  A numpy \<open>float64\<close> is a finite number, an infinity or NaN. Division by zero and the
  square root of a negative number do not raise in numpy: they give an infinity or NaN, and
  every comparison with NaN is false. Finite arithmetic is taken exactly (rounding and
  overflow are not modelled), and \<open>-0.0\<close> is identified with \<open>0.0\<close>; the divisors of
  \<open>calc_ci\<close> are an integer and a sum of squares, never \<open>-0.0\<close>.
\<close>

datatype fl = Fin real | PInf | NInf | NaN

fun fl_sgn :: "fl \<Rightarrow> int" where
  "fl_sgn (Fin a) = (if a < 0 then - 1 else if a = 0 then 0 else 1)"
| "fl_sgn PInf = 1"
| "fl_sgn NInf = - 1"
| "fl_sgn NaN = 0"

definition fl_inf :: "int \<Rightarrow> fl" where
  "fl_inf s = (if s = 0 then NaN else if 0 < s then PInf else NInf)"

fun fl_neg :: "fl \<Rightarrow> fl" where
  "fl_neg (Fin a) = Fin (- a)"
| "fl_neg PInf = NInf"
| "fl_neg NInf = PInf"
| "fl_neg NaN = NaN"

fun fl_add :: "fl \<Rightarrow> fl \<Rightarrow> fl" where
  "fl_add (Fin a) (Fin b) = Fin (a + b)"
| "fl_add NaN _ = NaN"
| "fl_add _ NaN = NaN"
| "fl_add PInf NInf = NaN"
| "fl_add NInf PInf = NaN"
| "fl_add PInf _ = PInf"
| "fl_add _ PInf = PInf"
| "fl_add NInf _ = NInf"
| "fl_add _ NInf = NInf"

definition fl_sub :: "fl \<Rightarrow> fl \<Rightarrow> fl" where
  "fl_sub a b = fl_add a (fl_neg b)"

fun fl_mul :: "fl \<Rightarrow> fl \<Rightarrow> fl" where
  "fl_mul (Fin a) (Fin b) = Fin (a * b)"
| "fl_mul NaN _ = NaN"
| "fl_mul _ NaN = NaN"
| "fl_mul a b = fl_inf (fl_sgn a * fl_sgn b)"

fun fl_div :: "fl \<Rightarrow> fl \<Rightarrow> fl" where
  "fl_div (Fin a) (Fin b) = (if b = 0 then fl_inf (fl_sgn (Fin a)) else Fin (a / b))"
| "fl_div NaN _ = NaN"
| "fl_div _ NaN = NaN"
| "fl_div (Fin a) _ = Fin 0"
| "fl_div a (Fin b) = fl_inf (fl_sgn a * (if b < 0 then - 1 else 1))"
| "fl_div _ _ = NaN"

fun fl_sqrt :: "fl \<Rightarrow> fl" where
  "fl_sqrt (Fin a) = (if a < 0 then NaN else Fin (sqrt a))"
| "fl_sqrt PInf = PInf"
| "fl_sqrt NInf = NaN"
| "fl_sqrt NaN = NaN"



text \<open>\<open>np.sum\<close> of a float array (the empty sum is \<open>0.0\<close>).\<close>

definition np_sum :: "fl list \<Rightarrow> fl" where
  "np_sum xs = foldl fl_add (Fin 0) xs"

text \<open>\<open>np.mean\<close>: the sum divided by the number of elements (NaN on an empty array).\<close>

definition np_mean :: "real list \<Rightarrow> fl" where
  "np_mean x = fl_div (np_sum (map Fin x)) (Fin (real (length x)))"

text \<open>
  An elementwise operation on two one-dimensional arrays: equal lengths pair up, an array of
  length one is broadcast, any other pair of shapes raises \<open>ValueError\<close>.
\<close>

definition np_binop :: "('a \<Rightarrow> 'b \<Rightarrow> 'c) \<Rightarrow> 'a list \<Rightarrow> 'b list \<Rightarrow> py_error + 'c list" where
  "np_binop f a b =
     (if length a = length b then Inr (map2 f a b)
      else if length b = 1 then Inr (map (\<lambda>u. f u (hd b)) a)
      else if length a = 1 then Inr (map (f (hd a)) b)
      else Inl (ValueError ''operands could not be broadcast together''))"

subsection \<open>\<open>calc_ci\<close> (lines 293-307)\<close>

text \<open>
  \<open>stats.t.ppf\<close> belongs to scipy, so the quantile function is the parameter \<open>t_ppf\<close>.
  The arrays hold finite numbers: \<open>plot_scatter\<close> has dropped the rows with missing values.
  The statements are evaluated in the source's order: \<open>y - y_model\<close> raises first when
  the shapes do not fit, and \<open>1 / n\<close>, a division of Python integers, raises
  \<open>ZeroDivisionError\<close> for an empty \<open>x\<close>.
\<close>

definition calc_ci :: "(real \<Rightarrow> int \<Rightarrow> fl) \<Rightarrow> real list \<Rightarrow> real list \<Rightarrow> real list \<Rightarrow> py_error + fl list" where
  "calc_ci t_ppf x y y_model =
     (let n = int (length x);
          m = 2;
          dof = n - m;
          t = t_ppf 0.95 dof
      in case np_binop (-) y y_model of
           Inl e \<Rightarrow> Inl e
         | Inr resid \<Rightarrow>
             let s_err = fl_sqrt (fl_div (np_sum (map (\<lambda>r. Fin (r ^ 2)) resid)) (Fin (real_of_int dof)))
             in if n = 0 then Inl ZeroDivisionError
                else
                  let dev2 = map (\<lambda>xi. let d = fl_sub (Fin xi) (np_mean x) in fl_mul d d) x
                  in Inr (map (\<lambda>d2. fl_mul (fl_mul t s_err)
                                  (fl_sqrt (fl_add (Fin (1 / real_of_int n)) (fl_div d2 (np_sum dev2)))))
                          dev2))"

text \<open>
  The band that \<open>plot_scatter\<close> draws from it (lines 145-146): \<open>y_model - ci\<close> and
  \<open>y_model + ci\<close>.
\<close>

definition band_lower :: "real list \<Rightarrow> fl list \<Rightarrow> py_error + fl list" where
  "band_lower y_model ci = np_binop (\<lambda>p h. fl_sub (Fin p) h) y_model ci"

definition band_upper :: "real list \<Rightarrow> fl list \<Rightarrow> py_error + fl list" where
  "band_upper y_model ci = np_binop (\<lambda>p h. fl_add (Fin p) h) y_model ci"

text \<open>
  The formula as the specification words it, for comparison with \<open>calc_ci\<close>:
  \<open>dof = n - 2\<close>, \<open>t = quantile(0.95, dof)\<close>,
  \<open>standard_error = sqrt(sum(residual^2) / dof)\<close> and
  \<open>half_width(x_i) = t * standard_error * sqrt(1/n + (x_i - mean(x))^2 / sum((x_j - mean(x))^2))\<close>.
\<close>

definition mean_spec :: "real list \<Rightarrow> real" where
  "mean_spec x = (\<Sum>j<length x. x ! j) / real (length x)"

definition standard_error_spec :: "real list \<Rightarrow> real list \<Rightarrow> real list \<Rightarrow> fl" where
  "standard_error_spec x y y_model =
     fl_sqrt (fl_div (Fin (\<Sum>i<length x. (y ! i - y_model ! i) ^ 2)) (Fin (real_of_int (int (length x) - 2))))"

definition half_width_spec :: "(real \<Rightarrow> int \<Rightarrow> fl) \<Rightarrow> real list \<Rightarrow> real list \<Rightarrow> real list \<Rightarrow> nat \<Rightarrow> fl" where
  "half_width_spec t_ppf x y y_model i =
     fl_mul (fl_mul (t_ppf 0.95 (int (length x) - 2)) (standard_error_spec x y y_model))
       (fl_sqrt (fl_add (Fin (1 / real (length x)))
          (fl_div (Fin ((x ! i - mean_spec x) ^ 2)) (Fin (\<Sum>j<length x. (x ! j - mean_spec x) ^ 2)))))"

subsection \<open>pandas frames\<close>

text \<open>
  A cell of a frame is a number, a string or a missing value. A frame is its column labels
  and its rows; the frames of interest are rectangular with distinct column labels (a cell
  missing from a short row reads as a missing value, a repeated label resolves to its first
  column). Row labels are not modelled: the code counts the rows and selects them by
  condition, never by label.
\<close>

datatype cell = NA | Num real | Str string

record dataframe =
  columns :: "string list"
  rows :: "cell list list"

fun index_of :: "'a \<Rightarrow> 'a list \<Rightarrow> nat option" where
  "index_of v [] = None"
| "index_of v (u # us) = (if u = v then Some 0 else map_option Suc (index_of v us))"

definition cell_at :: "cell list \<Rightarrow> nat \<Rightarrow> cell" where
  "cell_at r j = (if j < length r then r ! j else NA)"

text \<open>\<open>df[c]\<close>: the values of a column, \<open>KeyError\<close> for an unknown label.\<close>

definition df_col :: "dataframe \<Rightarrow> string \<Rightarrow> py_error + cell list" where
  "df_col d c =
     (case index_of c (columns d) of
        None \<Rightarrow> Inl (KeyError c)
      | Some j \<Rightarrow> Inr (map (\<lambda>r. cell_at r j) (rows d)))"

text \<open>\<open>df.dropna()\<close>: the rows without a missing value, as a new frame.\<close>

definition dropna :: "dataframe \<Rightarrow> dataframe" where
  "dropna d = d\<lparr>rows := filter (\<lambda>r. NA \<notin> set r) (rows d)\<rparr>"

text \<open>\<open>Series.unique()\<close>: the distinct values in the order of their first occurrence.\<close>

fun pd_unique :: "'a list \<Rightarrow> 'a list" where
  "pd_unique [] = []"
| "pd_unique (v # vs) = v # filter (\<lambda>u. u \<noteq> v) (pd_unique vs)"

text \<open>
  \<open>sort_values(by=c)\<close>: numbers by value, strings by code point, missing values last; a
  column that mixes numbers and strings raises \<open>TypeError\<close>. pandas leaves the order of equal
  keys open; the model keeps their order.
\<close>

fun str_le :: "string \<Rightarrow> string \<Rightarrow> bool" where
  "str_le [] _ = True"
| "str_le (a # as) [] = False"
| "str_le (a # as) (b # bs) =
     ((of_char a :: nat) < of_char b \<or> (a = b \<and> str_le as bs))"

fun cell_le :: "cell \<Rightarrow> cell \<Rightarrow> bool" where
  "cell_le _ NA = True"
| "cell_le NA _ = False"
| "cell_le (Num a) (Num b) = (a \<le> b)"
| "cell_le (Str a) (Str b) = str_le a b"
| "cell_le (Num a) (Str b) = True"
| "cell_le (Str a) (Num b) = False"

fun insort_by :: "('a \<Rightarrow> 'a \<Rightarrow> bool) \<Rightarrow> 'a \<Rightarrow> 'a list \<Rightarrow> 'a list" where
  "insort_by le v [] = [v]"
| "insort_by le v (u # us) = (if le v u then v # u # us else u # insort_by le v us)"

definition sort_by :: "('a \<Rightarrow> 'a \<Rightarrow> bool) \<Rightarrow> 'a list \<Rightarrow> 'a list" where
  "sort_by le xs = foldr (insort_by le) xs []"

fun is_num :: "cell \<Rightarrow> bool" where
  "is_num (Num _) = True"
| "is_num _ = False"

fun is_str :: "cell \<Rightarrow> bool" where
  "is_str (Str _) = True"
| "is_str _ = False"

definition sort_values :: "dataframe \<Rightarrow> string \<Rightarrow> py_error + dataframe" where
  "sort_values d c =
     (case index_of c (columns d) of
        None \<Rightarrow> Inl (KeyError c)
      | Some j \<Rightarrow>
          if list_ex (\<lambda>r. is_num (cell_at r j)) (rows d) \<and> list_ex (\<lambda>r. is_str (cell_at r j)) (rows d)
          then Inl TypeError
          else Inr (d\<lparr>rows := sort_by (\<lambda>r r'. cell_le (cell_at r j) (cell_at r' j)) (rows d)\<rparr>))"

text \<open>
  \<open>pd.melt(df, id_vars=[x], value_vars=df.columns.drop(x), var_name=v, value_name=w)\<close>:
  one block of rows per remaining column, in column order. \<open>Index.drop\<close> raises
  \<open>KeyError\<close> when the label is not a column.
\<close>

definition melt :: "dataframe \<Rightarrow> string \<Rightarrow> string \<Rightarrow> string \<Rightarrow> py_error + dataframe" where
  "melt d x var_name val_name =
     (case index_of x (columns d) of
        None \<Rightarrow> Inl (KeyError x)
      | Some jx \<Rightarrow>
          Inr \<lparr>columns = [x, var_name, val_name],
               rows = concat (map (\<lambda>j. map (\<lambda>r. [cell_at r jx, Str (columns d ! j), cell_at r j]) (rows d))
                               (filter (\<lambda>j. columns d ! j \<noteq> x) [0..<length (columns d)]))\<rparr>)"

text \<open>\<open>df[c] = v\<close>: overwrite the column when the label exists, append it otherwise.\<close>

definition df_set_col :: "dataframe \<Rightarrow> string \<Rightarrow> cell \<Rightarrow> dataframe" where
  "df_set_col d c v =
     (case index_of c (columns d) of
        Some j \<Rightarrow> d\<lparr>rows := map (\<lambda>r. r[j := v]) (rows d)\<rparr>
      | None \<Rightarrow> d\<lparr>columns := columns d @ [c], rows := map (\<lambda>r. r @ [v]) (rows d)\<rparr>)"

text \<open>\<open>df.loc[df[h] == k, c] = v\<close> for an existing column \<open>c\<close>.\<close>

definition df_set_where :: "dataframe \<Rightarrow> string \<Rightarrow> cell \<Rightarrow> string \<Rightarrow> cell \<Rightarrow> py_error + dataframe" where
  "df_set_where d h k c v =
     (case index_of h (columns d) of
        None \<Rightarrow> Inl (KeyError h)
      | Some jh \<Rightarrow>
          (case index_of c (columns d) of
             None \<Rightarrow> Inl (KeyError c)
           | Some jc \<Rightarrow> Inr (d\<lparr>rows := map (\<lambda>r. if cell_at r jh = k then r[jc := v] else r) (rows d)\<rparr>)))"

text \<open>A numeric array out of cells; numpy arithmetic on strings raises \<open>TypeError\<close>.\<close>

fun as_floats :: "cell list \<Rightarrow> py_error + real list" where
  "as_floats [] = Inr []"
| "as_floats (Num a # cs) = (case as_floats cs of Inl e \<Rightarrow> Inl e | Inr as \<Rightarrow> Inr (a # as))"
| "as_floats (_ # cs) = Inl TypeError"

subsection \<open>Objects, drawing calls and delegates\<close>

text \<open>
  The caller's frame is an object that \<open>plot_scatter\<close> could mutate, so frames live in a
  heap and a variable holds an address. An operation that returns a new frame allocates at
  the end of the heap. \<open>nfigs\<close> counts the figures pyplot has created, and \<open>canvas\<close>
  lists the drawing calls made so far, each with the axes it draws on.
\<close>

datatype axes = CallerAxes nat | FigureAxes nat

datatype figure = Figure nat

datatype ndarray = ACells "cell list" | AReals "real list" | AFloats "fl list"

datatype label_arg = LBool bool | LStr string | LNone

datatype draw =
    Scatterplot string string dataframe string int
  | Regplot string string dataframe "int option" int "bool option" string int real
  | Plot ndarray ndarray string "real option" string
  | Annotate string cell cell cell int
  | Scatter cell cell cell int
  | SetXlim real real
  | SetYlim real real
  | SetXLimits "real option \<times> real option"
  | SetYLimits "real option \<times> real option"
  | SetTickLabels "(cell list \<times> string list) option" int
  | SetXYLabels "string option" "string option" int
  | SetTicksFormat string string int
  | SetLegend "cell list" "string list" string int
  | SetTitle string int
  | SetSpines

record pstate =
  heap :: "dataframe list"
  nfigs :: nat
  canvas :: "(axes \<times> draw) list"

text \<open>
  The collaborators that are not part of this module are parameters: the colour palette
  and the legend text of \<open>qis.plots\<close> and \<open>qis.utils\<close>, the design matrix, the
  least-squares fit and its prediction (statsmodels), the t quantile (scipy), the axis
  limits matplotlib reports for what has been drawn, Python's rendering of a float, and
  the quantile classification. \<open>'m\<close> is the type of a fitted model. The drawing calls
  themselves are recorded and taken not to raise.
\<close>

record 'm env =
  get_n_colors :: "nat \<Rightarrow> string list"
  get_ols_x :: "cell list \<Rightarrow> int \<Rightarrow> bool \<Rightarrow> py_error + real list list"
  ols_fit :: "cell list \<Rightarrow> real list list \<Rightarrow> py_error + 'm"
  predict :: "'m \<Rightarrow> real list list \<Rightarrow> real list"
  reg_model_params_to_str :: "'m \<Rightarrow> int \<Rightarrow> bool \<Rightarrow> bool \<Rightarrow> string"
  t_ppf :: "real \<Rightarrow> int \<Rightarrow> fl"
  get_xlim :: "(axes \<times> draw) list \<Rightarrow> axes \<Rightarrow> real \<times> real"
  get_ylim :: "(axes \<times> draw) list \<Rightarrow> axes \<Rightarrow> real \<times> real"
  float_str :: "real \<Rightarrow> string"
  add_quantile_classification ::
    "dataframe \<Rightarrow> string \<Rightarrow> string \<Rightarrow> int option \<Rightarrow> real list \<Rightarrow> py_error + dataframe"

text \<open>The parameters of \<open>plot_scatter\<close> (lines 19-54); \<open>**kwargs\<close> is passed through to
  the delegates and left out.\<close>

record args =
  x_column :: "string option"
  y_column :: "string option"
  hue :: "string option"
  xlabel :: label_arg
  ylabel :: label_arg
  title :: "string option"
  annotation_labels :: "string list option"
  annotation_colors :: "string list option"
  annotation_color :: "string option"
  add_universe_model_label :: bool
  add_universe_model_prediction :: bool
  add_universe_model_ci :: bool
  add_hue_model_label :: "bool option"
  ci :: "int option"
  order :: int
  full_sample_order :: "int option"
  fit_intercept :: bool
  color0 :: string
  colors :: "string list option"
  xvar_format :: string
  yvar_format :: string
  x_limits :: "(real option \<times> real option) option"
  y_limits :: "(real option \<times> real option) option"
  xticks :: "string list option"
  fontsize :: int
  linewidth :: real
  markersize :: int
  full_sample_label :: string
  add_45line :: bool
  r2_only :: bool
  legend_loc :: string
  value_name :: string
  ax :: "axes option"

text \<open>The defaults of the signature.\<close>

definition default_args :: args where
  "default_args =
     \<lparr>x_column = None, y_column = None, hue = None, xlabel = LBool True, ylabel = LBool True,
      title = None, annotation_labels = None, annotation_colors = None,
      annotation_color = Some ''red'', add_universe_model_label = True,
      add_universe_model_prediction = False, add_universe_model_ci = False,
      add_hue_model_label = None, ci = None, order = 2, full_sample_order = Some 2,
      fit_intercept = True, color0 = ''darkblue'', colors = None, xvar_format = ''{:.0%}'',
      yvar_format = ''{:.0%}'', x_limits = None, y_limits = None, xticks = None, fontsize = 10,
      linewidth = 1.5, markersize = 4, full_sample_label = ''Full sample: '', add_45line = False,
      r2_only = False, legend_loc = ''upper left'', value_name = ''value_name'', ax = None\<rparr>"

subsection \<open>Statements with effects\<close>

type_synonym 'a py = "pstate \<Rightarrow> (py_error + 'a) \<times> pstate"

definition ret :: "'a \<Rightarrow> 'a py" where
  "ret v = (\<lambda>s. (Inr v, s))"

definition raise :: "py_error \<Rightarrow> 'a py" where
  "raise e = (\<lambda>s. (Inl e, s))"

text \<open>Sequencing: an exception ends the run with the state reached.\<close>

definition py_bind :: "'a py \<Rightarrow> ('a \<Rightarrow> 'b py) \<Rightarrow> 'b py" where
  "py_bind m f = (\<lambda>s. case m s of (Inl e, s') \<Rightarrow> (Inl e, s') | (Inr v, s') \<Rightarrow> f v s')"

definition lift :: "py_error + 'a \<Rightarrow> 'a py" where
  "lift r = (case r of Inl e \<Rightarrow> raise e | Inr v \<Rightarrow> ret v)"

definition read_frame :: "nat \<Rightarrow> dataframe py" where
  "read_frame r = (\<lambda>s. (Inr (heap s ! r), s))"

definition new_frame :: "dataframe \<Rightarrow> nat py" where
  "new_frame d = (\<lambda>s. (Inr (length (heap s)), s\<lparr>heap := heap s @ [d]\<rparr>))"

definition write_frame :: "nat \<Rightarrow> dataframe \<Rightarrow> unit py" where
  "write_frame r d = (\<lambda>s. (Inr (), s\<lparr>heap := (heap s)[r := d]\<rparr>))"

definition emit_all :: "axes \<Rightarrow> draw list \<Rightarrow> unit py" where
  "emit_all a cs = (\<lambda>s. (Inr (), s\<lparr>canvas := canvas s @ map (Pair a) cs\<rparr>))"

definition emit :: "axes \<Rightarrow> draw \<Rightarrow> unit py" where
  "emit a c = emit_all a [c]"

text \<open>\<open>str(v)\<close> of a cell, as an f-string renders it.\<close>

fun py_str :: "'m env \<Rightarrow> cell \<Rightarrow> string" where
  "py_str env (Str s) = s"
| "py_str env (Num a) = float_str env a"
| "py_str env NA = ''nan''"

subsection \<open>\<open>plot_scatter\<close> (lines 19-240)\<close>

text \<open>Line 58, \<open>df = df.copy().dropna()\<close>: two new frames; the variable ends on the second.\<close>

definition df_copy :: "nat \<Rightarrow> nat py" where
  "df_copy r = py_bind (read_frame r) new_frame"

definition df_dropna :: "nat \<Rightarrow> nat py" where
  "df_dropna r = py_bind (read_frame r) (\<lambda>d. new_frame (dropna d))"

text \<open>
  Lines 60-72, the column names: the result is \<open>x_column\<close>, \<open>y_column\<close>, \<open>hue\<close> and the
  frame the variable \<open>df\<close> holds afterwards (the melted one when the table is reshaped).
\<close>

definition infer_columns :: "args \<Rightarrow> nat \<Rightarrow> (string \<times> string \<times> string option \<times> nat) py" where
  "infer_columns a df =
     py_bind (read_frame df) (\<lambda>d.
     py_bind
       (case x_column a of
          Some xc \<Rightarrow> ret xc
        | None \<Rightarrow>
            if length (columns d) = 2 \<or> (length (columns d) = 3 \<and> hue a \<noteq> None)
            then ret (columns d ! 0)
            else raise (ValueError ''x_column is not defined for more than on columns''))
       (\<lambda>xc.
          case y_column a of
            Some yc \<Rightarrow> ret (xc, yc, hue a, df)
          | None \<Rightarrow>
              if length (columns d) = 2 \<or> (length (columns d) = 3 \<and> hue a \<noteq> None)
              then ret (xc, columns d ! 1, hue a, df)
              else py_bind (lift (melt d xc ''hue'' (value_name a))) (\<lambda>long.
                   py_bind (new_frame long) (\<lambda>df'.
                   ret (xc, value_name a, Some ''hue'', df')))))"

text \<open>Lines 74-75.\<close>

definition hue_model_label :: "args \<Rightarrow> string option \<Rightarrow> bool option" where
  "hue_model_label a h =
     (if h \<noteq> None \<and> add_hue_model_label a = None then Some True else add_hue_model_label a)"

text \<open>Lines 77-80: a new figure with its axes, or the caller's axes and no figure.\<close>

definition get_fig_ax :: "axes option \<Rightarrow> (figure option \<times> axes) py" where
  "get_fig_ax supplied =
     (case supplied of
        None \<Rightarrow> (\<lambda>s. (Inr (Some (Figure (nfigs s)), FigureAxes (nfigs s)), s\<lparr>nfigs := Suc (nfigs s)\<rparr>))
      | Some a \<Rightarrow> ret (None, a))"

text \<open>Lines 91-93: the rows of one group, sorted by x, and their x and y arrays.\<close>

definition group_data ::
  "dataframe \<Rightarrow> string \<Rightarrow> string \<Rightarrow> string \<Rightarrow> cell \<Rightarrow> py_error + dataframe \<times> cell list \<times> cell list" where
  "group_data d h xc yc hue_id =
     (case index_of h (columns d) of
        None \<Rightarrow> Inl (KeyError h)
      | Some jh \<Rightarrow>
          (case sort_values (d\<lparr>rows := filter (\<lambda>r. cell_at r jh = hue_id) (rows d)\<rparr>) xc of
             Inl e \<Rightarrow> Inl e
           | Inr data_hue \<Rightarrow>
               (case df_col data_hue xc of
                  Inl e \<Rightarrow> Inl e
                | Inr x \<Rightarrow>
                    (case df_col data_hue yc of
                       Inl e \<Rightarrow> Inl e
                     | Inr y \<Rightarrow> Inr (data_hue, x, y)))))"

text \<open>
  Lines 90-112, one turn of the loop over the groups: the fit (there is no check of the
  number of rows before it), the points, and for \<open>order > 0\<close> the curve. \<open>palette[idx]\<close>
  raises \<open>IndexError\<close> past the end of the palette. The result is the group's entry of
  \<open>estimated_reg_models\<close>.
\<close>

definition hue_iteration ::
  "'m env \<Rightarrow> args \<Rightarrow> axes \<Rightarrow> dataframe \<Rightarrow> string \<Rightarrow> string \<Rightarrow> string \<Rightarrow> string list \<Rightarrow> nat \<times> cell \<Rightarrow> 'm py" where
  "hue_iteration env a axs d xc yc h palette p =
     (case p of (idx, hue_id) \<Rightarrow>
     py_bind (lift (group_data d h xc yc hue_id)) (\<lambda>(data_hue, x, y).
     py_bind (lift (get_ols_x env x (order a) (fit_intercept a))) (\<lambda>x1.
     py_bind (lift (ols_fit env y x1)) (\<lambda>reg_model.
     if idx < length palette
     then
       py_bind (emit axs (Scatterplot xc yc data_hue (palette ! idx) (markersize a))) (\<lambda>_.
       py_bind
         (if 0 < order a
          then (case ci a of
                  Some c \<Rightarrow>
                    emit axs (Regplot xc yc data_hue (Some c) (order a) (Some True) (palette ! idx)
                                (markersize a) (linewidth a))
                | None \<Rightarrow>
                    emit axs (Plot (ACells x) (AReals (predict env reg_model x1)) (palette ! idx)
                                (Some (linewidth a)) ''-''))
          else ret ())
         (\<lambda>_. ret reg_model))
     else raise IndexError))))"

fun hue_loop ::
  "'m env \<Rightarrow> args \<Rightarrow> axes \<Rightarrow> dataframe \<Rightarrow> string \<Rightarrow> string \<Rightarrow> string \<Rightarrow> string list \<Rightarrow>
   (nat \<times> cell) list \<Rightarrow> (cell \<rightharpoonup> 'm) \<Rightarrow> (cell \<rightharpoonup> 'm) py" where
  "hue_loop env a axs d xc yc h palette [] models = ret models"
| "hue_loop env a axs d xc yc h palette (p # ps) models =
     py_bind (hue_iteration env a axs d xc yc h palette p) (\<lambda>reg_model.
     hue_loop env a axs d xc yc h palette ps (models(snd p \<mapsto> reg_model)))"

text \<open>
  Lines 82-124: with a group column the loop over \<open>df[hue].unique()\<close>, else the points (and
  seaborn's regression) of the whole sample. The frame is not changed here, so it is read
  once. The result is \<open>estimated_reg_models\<close> and the variable \<open>colors\<close>.
\<close>

definition plot_layers ::
  "'m env \<Rightarrow> args \<Rightarrow> axes \<Rightarrow> nat \<Rightarrow> string \<Rightarrow> string \<Rightarrow> string option \<Rightarrow>
   ((cell \<rightharpoonup> 'm) \<times> string list option) py" where
  "plot_layers env a axs df xc yc h_opt =
     py_bind (read_frame df) (\<lambda>d.
       case h_opt of
         Some h \<Rightarrow>
           py_bind (lift (df_col d h)) (\<lambda>hcol.
             let palette = (case colors a of
                              None \<Rightarrow> get_n_colors env (length (pd_unique hcol))
                            | Some cs \<Rightarrow> cs);
                 hue_ids = pd_unique hcol
             in py_bind (hue_loop env a axs d xc yc h palette (zip [0..<length hue_ids] hue_ids) Map.empty)
                  (\<lambda>models. ret (models, Some palette)))
       | None \<Rightarrow>
           py_bind
             (case full_sample_order a of
                None \<Rightarrow> ret ()
              | Some fo \<Rightarrow>
                  if fo = 0
                  then emit axs (Scatterplot xc yc d (color0 a) (markersize a))
                  else emit axs (Regplot xc yc d (ci a) fo None (color0 a) (markersize a) (linewidth a)))
             (\<lambda>_. ret (Map.empty, colors a)))"

text \<open>
  Lines 131-133: \<open>df[[x_column, y_column]].sort_values(by=x_column)\<close> and its arrays.
  Selecting the two columns raises \<open>KeyError\<close> for an unknown label; the two arrays are
  the same whether the two columns or all columns are sorted.
\<close>

definition sample_data :: "dataframe \<Rightarrow> string \<Rightarrow> string \<Rightarrow> py_error + cell list \<times> cell list" where
  "sample_data d xc yc =
     (case df_col d xc of
        Inl e \<Rightarrow> Inl e
      | Inr _ \<Rightarrow>
          (case df_col d yc of
             Inl e \<Rightarrow> Inl e
           | Inr _ \<Rightarrow>
               (case sort_values d xc of
                  Inl e \<Rightarrow> Inl e
                | Inr xy \<Rightarrow>
                    (case df_col xy xc of
                       Inl e \<Rightarrow> Inl e
                     | Inr x \<Rightarrow> (case df_col xy yc of Inl e \<Rightarrow> Inl e | Inr y \<Rightarrow> Inr (x, y))))))"

text \<open>Lines 141-146: the band around the prediction of the whole sample.\<close>

definition universe_ci :: "'m env \<Rightarrow> axes \<Rightarrow> cell list \<Rightarrow> cell list \<Rightarrow> real list \<Rightarrow> unit py" where
  "universe_ci env axs x y y_model =
     py_bind (lift (as_floats y)) (\<lambda>yf.
     py_bind (lift (as_floats x)) (\<lambda>xf.
     py_bind (lift (calc_ci (t_ppf env) xf yf y_model)) (\<lambda>half_width.
     py_bind (lift (band_lower y_model half_width)) (\<lambda>lower.
     py_bind (emit axs (Plot (ACells x) (AFloats lower) ''0.5'' None ''--'')) (\<lambda>_.
     py_bind (lift (band_upper y_model half_width)) (\<lambda>upper.
     emit axs (Plot (ACells x) (AFloats upper) ''0.5'' None ''--'')))))))"

text \<open>
  Lines 127-152: the fit of the whole sample with its own order, its dashed prediction, its
  band and its legend entry. The result is \<open>legend_labels\<close> and \<open>legend_colors\<close>.
\<close>

definition universe_model ::
  "'m env \<Rightarrow> args \<Rightarrow> axes \<Rightarrow> nat \<Rightarrow> string \<Rightarrow> string \<Rightarrow> (cell list \<times> string list) py" where
  "universe_model env a axs df xc yc =
     (case full_sample_order a of
        None \<Rightarrow> ret ([], [])
      | Some fo \<Rightarrow>
          if (add_universe_model_prediction a \<or> add_universe_model_label a \<or> add_universe_model_ci a)
             \<and> 0 < fo
          then
            py_bind (read_frame df) (\<lambda>d.
            py_bind (lift (sample_data d xc yc)) (\<lambda>(x, y).
            py_bind (lift (get_ols_x env x fo (fit_intercept a))) (\<lambda>x1.
            py_bind (lift (ols_fit env y x1)) (\<lambda>reg_model.
            py_bind
              (if add_universe_model_prediction a
               then emit axs (Plot (ACells x) (AReals (predict env reg_model x1)) (color0 a)
                                (Some (linewidth a)) ''--'')
               else ret ())
              (\<lambda>_.
            py_bind
              (if add_universe_model_ci a
               then universe_ci env axs x y (predict env reg_model x1)
               else ret ())
              (\<lambda>_.
            ret (if add_universe_model_label a
                 then ([Str (full_sample_label a @ '' '' @
                             reg_model_params_to_str env reg_model fo False (fit_intercept a))],
                       [color0 a])
                 else ([], []))))))))
          else ret ([], []))"

text \<open>
  Lines 158-170, the loop over \<open>zip(colors, hue_ids)\<close>: the group's rows get the colour
  \<open>'red'\<close> in the column \<open>'color'\<close> of the frame, and the group gets its legend entry.
\<close>

fun legend_loop ::
  "'m env \<Rightarrow> args \<Rightarrow> nat \<Rightarrow> string \<Rightarrow> (cell \<rightharpoonup> 'm) \<Rightarrow> bool option \<Rightarrow> (string \<times> cell) list \<Rightarrow>
   cell list \<times> string list \<Rightarrow> (cell list \<times> string list) py" where
  "legend_loop env a df h models add_label [] legend = ret legend"
| "legend_loop env a df h models add_label ((color, hue_id) # ps) legend =
     py_bind (read_frame df) (\<lambda>d.
     py_bind (lift (df_set_where d h hue_id ''color'' (Str ''red''))) (\<lambda>d'.
     py_bind (write_frame df d') (\<lambda>_.
     py_bind
       (if 0 < order a
        then (if add_label = Some True
              then (case models hue_id of
                      None \<Rightarrow> raise (KeyError (py_str env hue_id))
                    | Some reg_model \<Rightarrow>
                        ret (Str (py_str env hue_id @ '': '' @
                                  reg_model_params_to_str env reg_model (order a) (r2_only a)
                                    (fit_intercept a))))
              else ret hue_id)
        else ret hue_id)
       (\<lambda>text_str.
     legend_loop env a df h models add_label ps (fst legend @ [text_str], snd legend @ [color])))))"

text \<open>
  Lines 155-170: the column \<open>'color'\<close> is written into the frame the variable holds, then
  the groups are read again from that frame. \<open>zip\<close> over a \<open>colors\<close> that is still
  \<open>None\<close> would raise \<open>TypeError\<close>. The branch of lines 172-174 cannot be reached.
\<close>

definition group_legend ::
  "'m env \<Rightarrow> args \<Rightarrow> nat \<Rightarrow> string option \<Rightarrow> string list option \<Rightarrow> (cell \<rightharpoonup> 'm) \<Rightarrow> bool option \<Rightarrow>
   cell list \<times> string list \<Rightarrow> (cell list \<times> string list) py" where
  "group_legend env a df h_opt cols models add_label legend =
     py_bind (read_frame df) (\<lambda>d.
     py_bind (write_frame df (df_set_col d ''color'' (Str (color0 a)))) (\<lambda>_.
       case h_opt of
         None \<Rightarrow> ret legend
       | Some h \<Rightarrow>
           py_bind (read_frame df) (\<lambda>d1.
           py_bind (lift (df_col d1 h)) (\<lambda>hcol.
             case cols of
               None \<Rightarrow> raise TypeError
             | Some cs \<Rightarrow> legend_loop env a df h models add_label (zip cs (pd_unique hcol)) legend))))"

text \<open>
  Lines 177-191: the colours (lines 178-183), then one \<open>annotate\<close> per row that \<open>zip\<close>
  reaches, with the row's label, and for a label other than the empty string the point again
  with \<open>s=20\<close>.
\<close>

definition annotation_calls :: "int \<Rightarrow> string list \<Rightarrow> cell list \<Rightarrow> cell list \<Rightarrow> cell list \<Rightarrow> draw list" where
  "annotation_calls fs labels xs ys cols =
     concat (map (\<lambda>(label, x, y, color).
                    Annotate label x y color fs # (if label \<noteq> [] then [Scatter x y color 20] else []))
                 (zip labels (zip xs (zip ys cols))))"

definition annotation_palette :: "args \<Rightarrow> dataframe \<Rightarrow> py_error + cell list" where
  "annotation_palette a d =
     (case annotation_colors a of
        Some cs \<Rightarrow> Inr (map Str cs)
      | None \<Rightarrow>
          (case annotation_color a of
             Some c \<Rightarrow> Inr (replicate (length (rows d)) (Str c))
           | None \<Rightarrow> df_col d ''color''))"

definition annotate_points :: "args \<Rightarrow> axes \<Rightarrow> nat \<Rightarrow> string \<Rightarrow> string \<Rightarrow> unit py" where
  "annotate_points a axs df xc yc =
     (case annotation_labels a of
        None \<Rightarrow> ret ()
      | Some labels \<Rightarrow>
          py_bind (read_frame df) (\<lambda>d.
          py_bind (lift (annotation_palette a d)) (\<lambda>cols.
          py_bind (lift (df_col d xc)) (\<lambda>xs.
          py_bind (lift (df_col d yc)) (\<lambda>ys.
          emit_all axs (annotation_calls (fontsize a) labels xs ys cols))))))"

text \<open>Lines 193-201; \<open>np.linspace\<close> gives 50 points.\<close>

definition linspace :: "real \<Rightarrow> real \<Rightarrow> real list" where
  "linspace lo hi = map (\<lambda>i. lo + (hi - lo) * real i / 49) [0..<50]"

definition line45 :: "'m env \<Rightarrow> axes \<Rightarrow> unit py" where
  "line45 env axs =
     (\<lambda>s. let (ymin, ymax) = get_ylim env (canvas s) axs;
               (xmin, xmax) = get_xlim env (canvas s) axs;
               lo = (if ymin < xmin then ymin else xmin);
               hi = (if ymax > xmax then ymax else xmax)
           in py_bind (emit_all axs [SetXlim lo hi, SetYlim lo hi]) (\<lambda>_.
              (\<lambda>s'. let x = (case get_xlim env (canvas s') axs of (l, u) \<Rightarrow> linspace l u)
                     in emit axs (Plot (AReals x) (AReals x) ''black'' (Some 1) ''--'') s')) s)"

text \<open>Lines 203-238: limits, ticks, axis labels, legend, title and spines.\<close>

definition axis_label :: "label_arg \<Rightarrow> string \<Rightarrow> string \<Rightarrow> string option" where
  "axis_label l prefix col =
     (case l of
        LBool b \<Rightarrow> Some (if b then prefix @ col else [])
      | LStr t \<Rightarrow> Some t
      | LNone \<Rightarrow> None)"

definition finish ::
  "args \<Rightarrow> axes \<Rightarrow> nat \<Rightarrow> string \<Rightarrow> string \<Rightarrow> cell list \<times> string list \<Rightarrow> unit py" where
  "finish a axs df xc yc legend =
     py_bind (emit_all axs (case x_limits a of None \<Rightarrow> [] | Some l \<Rightarrow> [SetXLimits l])) (\<lambda>_.
     py_bind (emit_all axs (case y_limits a of None \<Rightarrow> [] | Some l \<Rightarrow> [SetYLimits l])) (\<lambda>_.
     py_bind
       (case xticks a of
          Some ts \<Rightarrow>
            py_bind (read_frame df) (\<lambda>d.
            py_bind (lift (df_col d xc)) (\<lambda>xs.
            emit axs (SetTickLabels (Some (xs, ts)) (fontsize a))))
        | None \<Rightarrow> emit axs (SetTickLabels None (fontsize a)))
       (\<lambda>_.
     emit_all axs
       ([SetXYLabels (axis_label (xlabel a) ''x = '' xc) (axis_label (ylabel a) ''y = '' yc) (fontsize a),
         SetTicksFormat (xvar_format a) (yvar_format a) (fontsize a),
         SetLegend (fst legend) (snd legend) (legend_loc a) (fontsize a)]
        @ (case title a of None \<Rightarrow> [] | Some t \<Rightarrow> [SetTitle t (fontsize a)])
        @ [SetSpines]))))"

text \<open>Lines 82-240: everything after the figure and the axes are fixed.\<close>

definition draw_all ::
  "'m env \<Rightarrow> args \<Rightarrow> figure option \<Rightarrow> axes \<Rightarrow> nat \<Rightarrow> string \<Rightarrow> string \<Rightarrow> string option \<Rightarrow>
   figure option py" where
  "draw_all env a fig axs df xc yc h =
     py_bind (plot_layers env a axs df xc yc h) (\<lambda>(models, cols).
     py_bind (universe_model env a axs df xc yc) (\<lambda>legend0.
     py_bind (group_legend env a df h cols models (hue_model_label a h) legend0) (\<lambda>legend.
     py_bind (annotate_points a axs df xc yc) (\<lambda>_.
     py_bind (if add_45line a then line45 env axs else ret ()) (\<lambda>_.
     py_bind (finish a axs df xc yc legend) (\<lambda>_.
     ret fig))))))"

definition plot_scatter :: "'m env \<Rightarrow> args \<Rightarrow> nat \<Rightarrow> figure option py" where
  "plot_scatter env a df0 =
     py_bind (df_copy df0) (\<lambda>copied.
     py_bind (df_dropna copied) (\<lambda>dropped.
     py_bind (infer_columns a dropped) (\<lambda>(xc, yc, h, df).
     py_bind (get_fig_ax (ax a)) (\<lambda>(fig, axs).
     draw_all env a fig axs df xc yc h))))"

subsection \<open>\<open>plot_classification_scatter\<close> (lines 243-290)\<close>

text \<open>
  Its own parameters, and in \<open>kwargs\<close> the parameters of \<open>plot_scatter\<close> that the call
  does not name. \<open>add_quantile_classification\<close> is a delegate; its result is taken to be a
  new frame.
\<close>

record cls_args =
  cls_x_column :: "string option"
  cls_y_column :: "string option"
  hue_name :: string
  num_buckets :: "int option"
  bins :: "real list"
  cls_order :: int
  cls_title :: "string option"
  cls_full_sample_order :: "int option"
  cls_markersize :: int
  cls_xvar_format :: string
  cls_yvar_format :: string
  cls_fit_intercept :: bool
  cls_ax :: "axes option"
  kwargs :: args

text \<open>The arguments of the call of \<open>plot_scatter\<close> in lines 275-289.\<close>

definition scatter_args :: "cls_args \<Rightarrow> string \<Rightarrow> string \<Rightarrow> args" where
  "scatter_args c xc yc =
     (kwargs c)\<lparr>x_column := Some xc, y_column := Some yc, hue := Some (hue_name c),
                fit_intercept := cls_fit_intercept c, title := cls_title c, order := cls_order c,
                full_sample_order := cls_full_sample_order c, markersize := cls_markersize c,
                xvar_format := cls_xvar_format c, yvar_format := cls_yvar_format c,
                add_universe_model_ci := False, add_hue_model_label := Some True,
                ax := cls_ax c\<rparr>"

definition cls_column :: "string option \<Rightarrow> dataframe \<Rightarrow> nat \<Rightarrow> string \<Rightarrow> string py" where
  "cls_column given d j msg =
     (case given of
        Some c \<Rightarrow> ret c
      | None \<Rightarrow> if length (columns d) = 2 then ret (columns d ! j) else raise (ValueError msg))"

definition plot_classification_scatter :: "'m env \<Rightarrow> cls_args \<Rightarrow> nat \<Rightarrow> figure option py" where
  "plot_classification_scatter env c df0 =
     py_bind (read_frame df0) (\<lambda>d.
     py_bind (cls_column (cls_x_column c) d 0 ''x_column is not defined for more than on columns'') (\<lambda>xc.
     py_bind (cls_column (cls_y_column c) d 1 ''y_column is not defined for more than on columns'') (\<lambda>yc.
     py_bind (lift (add_quantile_classification env d xc (hue_name c) (num_buckets c) (bins c))) (\<lambda>classified.
     py_bind (new_frame classified) (\<lambda>df.
     plot_scatter env (scatter_args c xc yc) df)))))"

subsection \<open>Reading the canvas\<close>

text \<open>The legends set on a canvas, and the calls that draw a fitted curve.\<close>

fun legends :: "(axes \<times> draw) list \<Rightarrow> (cell list \<times> string list) list" where
  "legends [] = []"
| "legends ((_, SetLegend ls cs _ _) # rest) = (ls, cs) # legends rest"
| "legends (_ # rest) = legends rest"




subsection \<open>Sample inputs\<close>

text \<open>
  Delegates for running the model on sample inputs: a palette, a polynomial design matrix,
  a fit that always succeeds (its model is the number of rows), and a legend text. The
  second environment differs in its fit, which raises when there are fewer rows than
  coefficients.
\<close>

definition sample_ols_x :: "cell list \<Rightarrow> int \<Rightarrow> bool \<Rightarrow> py_error + real list list" where
  "sample_ols_x x ord intercept =
     (case as_floats x of
        Inl e \<Rightarrow> Inl e
      | Inr xs \<Rightarrow> Inr (map (\<lambda>v. map (\<lambda>k. v ^ k) [(if intercept then 0 else 1)..<Suc (nat ord)]) xs))"

definition sample_env :: "nat env" where
  "sample_env =
     \<lparr>get_n_colors = (\<lambda>n. take n [''C0'', ''C1'', ''C2'', ''C3'']),
      get_ols_x = sample_ols_x,
      ols_fit = (\<lambda>y x1. Inr (length y)),
      predict = (\<lambda>m x1. map (\<lambda>_. 0) x1),
      reg_model_params_to_str = (\<lambda>m ord r2 intercept. ''R2=0%''),
      t_ppf = (\<lambda>q dof. Fin 2),
      get_xlim = (\<lambda>c a. (0, 1)),
      get_ylim = (\<lambda>c a. (0, 1)),
      float_str = (\<lambda>r. ''1.0''),
      add_quantile_classification = (\<lambda>d xc hn nb bs. Inr (df_set_col d hn (Str ''q1'')))\<rparr>"

definition strict_env :: "nat env" where
  "strict_env =
     sample_env\<lparr>ols_fit :=
       (\<lambda>y x1. if length y < (case x1 of [] \<Rightarrow> 0 | r # _ \<Rightarrow> length r)
               then Inl (DelegateError ''singular matrix'')
               else Inr (length y))\<rparr>"

definition sample_rows :: "cell list list" where
  "sample_rows = [[Num 1, Num 1, Str ''a''], [Num 2, Num 3, Str ''b''], [Num 3, Num 2, Str ''a'']]"

definition frame_xyg :: dataframe where
  "frame_xyg = \<lparr>columns = [''x'', ''y'', ''g''], rows = sample_rows\<rparr>"

definition frame_xycolor :: dataframe where
  "frame_xycolor = \<lparr>columns = [''x'', ''y'', ''color''], rows = sample_rows\<rparr>"

definition frame_gxy :: dataframe where
  "frame_gxy = \<lparr>columns = [''g'', ''x'', ''y''],
                rows = [[Num 1, Num 1, Num 1], [Num 2, Num 2, Num 3], [Num 1, Num 3, Num 2]]\<rparr>"

definition frame_xy :: dataframe where
  "frame_xy = \<lparr>columns = [''x'', ''y''], rows = [[Num 1, Num 1], [Num 2, Num 3], [Num 3, NA]]\<rparr>"

definition frame_5 :: dataframe where
  "frame_5 = \<lparr>columns = [''a'', ''b'', ''c'', ''d'', ''e''],
               rows = [[Num 1, Num 2, Num 3, Num 4, Num 5]]\<rparr>"

definition start :: "dataframe \<Rightarrow> pstate" where
  "start d = \<lparr>heap = [d], nfigs = 0, canvas = []\<rparr>"

definition sample_cls_args :: cls_args where
  "sample_cls_args =
     \<lparr>cls_x_column = None, cls_y_column = None, hue_name = ''hue'', num_buckets = None,
      bins = [- 3, - 1.5, 0, 1.5, 3], cls_order = 1, cls_title = None,
      cls_full_sample_order = Some 3, cls_markersize = 10, cls_xvar_format = ''{:.2f}'',
      cls_yvar_format = ''{:.2f}'', cls_fit_intercept = False, cls_ax = None,
      kwargs = default_args\<rparr>"

subsection \<open>Invariants of a statement\<close>

text \<open>
  A statement preserves a component of the state; a statement leaves the first \<open>L\<close>
  objects of the heap as they are; a statement can only return \<open>v\<close>.
\<close>

definition preserves :: "(pstate \<Rightarrow> 'x) \<Rightarrow> 'a py \<Rightarrow> bool" where
  "preserves g m = (\<forall>s. g (snd (m s)) = g s)"

definition frame_safe :: "nat \<Rightarrow> 'a py \<Rightarrow> bool" where
  "frame_safe L m =
     (\<forall>s. L \<le> length (heap s) \<longrightarrow>
          L \<le> length (heap (snd (m s))) \<and> take L (heap (snd (m s))) = take L (heap s))"

definition returns_only :: "'a \<Rightarrow> 'a py \<Rightarrow> bool" where
  "returns_only v m = (\<forall>s r. fst (m s) = Inr r \<longrightarrow> r = v)"

section \<open>Properties\<close>

subsection \<open>The confidence band\<close>

lemma foldl_fl_add_Fin: "foldl fl_add (Fin a) (map Fin xs) = Fin (a + sum_list xs)"
  by (induction xs arbitrary: a) (simp_all add: add.assoc)

lemma np_sum_Fin: "np_sum (map Fin xs) = Fin (sum_list xs)"
  by (simp add: np_sum_def foldl_fl_add_Fin)

lemma np_sum_map_Fin: "np_sum (map (\<lambda>v. Fin (f v)) xs) = Fin (\<Sum>v\<leftarrow>xs. f v)"
  using np_sum_Fin [of "map f xs"] by (simp add: comp_def)

lemma sum_list_nth_lessThan: "(\<Sum>v\<leftarrow>xs. f v) = (\<Sum>i<length xs. f (xs ! i))"
  using sum_list_sum_nth [of "map f xs"] by (simp add: atLeast0LessThan)

lemma np_mean_spec: "x \<noteq> [] \<Longrightarrow> np_mean x = Fin (mean_spec x)"
  using sum_list_nth_lessThan [of "\<lambda>v. v" x]
  by (simp add: np_mean_def mean_spec_def np_sum_Fin)

lemma np_sum_sq_resid:
  assumes "length y = length ym"
  shows "np_sum (map (\<lambda>r. Fin (r ^ 2)) (map2 (-) y ym)) = Fin (\<Sum>i<length y. (y ! i - ym ! i) ^ 2)"
proof -
  have "(\<Sum>r\<leftarrow>map2 (-) y ym. r ^ 2) = (\<Sum>i<length y. (y ! i - ym ! i) ^ 2)"
    using assms sum_list_nth_lessThan [of "\<lambda>r. r ^ 2" "map2 (-) y ym"] by simp
  then show ?thesis
    by (simp only: np_sum_map_Fin)
qed

lemma fl_sq_dev: "fl_mul (fl_sub (Fin xi) (Fin m)) (fl_sub (Fin xi) (Fin m)) = Fin ((xi - m) ^ 2)"
  by (simp add: fl_sub_def power2_eq_square)

lemma np_sum_sq_dev:
  "np_sum (map (\<lambda>xi. Fin ((xi - m) ^ 2)) x) = Fin (\<Sum>j<length x. (x ! j - m) ^ 2)"
  by (simp only: np_sum_map_Fin sum_list_nth_lessThan)

text \<open>
  C1. For non-empty arrays \<open>x\<close>, \<open>y\<close>, \<open>y_model\<close> of one length \<open>n\<close>, \<open>calc_ci\<close> returns,
  point by point, the half-width of the specification's formula: the t quantile at 0.95
  with \<open>n - 2\<close> degrees of freedom, times the standard error \<open>sqrt(sum(resid^2) / (n - 2))\<close>,
  times \<open>sqrt(1/n + (x_i - mean(x))^2 / sum((x_j - mean(x))^2))\<close>. The function has no
  argument for the order of the fit, so the \<open>n - 2\<close> holds for every fit.
\<close>

theorem calc_ci_formula:
  assumes "x \<noteq> []" and "length y = length x" and "length y_model = length x"
  shows "calc_ci ppf x y y_model = Inr (map (half_width_spec ppf x y y_model) [0..<length x])"
proof -
  have resid: "np_binop (-) y y_model = Inr (map2 (-) y y_model)"
    using assms by (simp add: np_binop_def)
  have n0: "int (length x) \<noteq> 0"
    using assms(1) by simp
  have ss: "np_sum (map (\<lambda>r. Fin (r ^ 2)) (map2 (-) y y_model)) = Fin (\<Sum>i<length x. (y ! i - y_model ! i) ^ 2)"
    using np_sum_sq_resid [of y y_model] assms by simp
  show ?thesis
    unfolding calc_ci_def
    apply (simp only: Let_def resid sum.case)
    apply (simp only: ss)
    apply (simp only: np_mean_spec [OF assms(1)])
    apply (simp only: fl_sq_dev np_sum_sq_dev)
    apply (simp only: n0 if_False sum.inject)
    apply (rule nth_equalityI)
     apply simp
    using assms(1)
    apply (simp add: half_width_spec_def standard_error_spec_def
        del: fl_div.simps fl_sqrt.simps fl_mul.simps fl_add.simps)
    done
qed

lemma lessThan_3: "{..<3::nat} = {0, 1, 2}"
  by auto

theorem calc_ci_formula_witness:
  "[1, 2, 3] \<noteq> ([] :: real list) \<and> length [1, 2, 4 :: real] = length [1, 2, 3 :: real] \<and>
   calc_ci (\<lambda>q dof. Fin 2) [1, 2, 3] [1, 2, 4] [1, 2, 3] =
     Inr [Fin (2 * sqrt (5 / 6)), Fin (2 * sqrt (1 / 3)), Fin (2 * sqrt (5 / 6))]"
  using calc_ci_formula [of "[1, 2, 3]" "[1, 2, 4]" "[1, 2, 3]" "\<lambda>q dof. Fin 2"]
  by (simp add: half_width_spec_def standard_error_spec_def mean_spec_def lessThan_3 upt_rec [of 0 3]
      upt_rec [of 1 3] upt_rec [of 2 3])










subsection \<open>Invariants through the statements\<close>

lemma preserves_ret: "preserves g (ret v)"
  by (simp add: preserves_def ret_def)

lemma preserves_raise: "preserves g (raise e)"
  by (simp add: preserves_def raise_def)

lemma preserves_lift: "preserves g (lift r)"
  by (cases r) (simp_all add: lift_def preserves_ret preserves_raise)

lemma preserves_bind:
  "preserves g m \<Longrightarrow> (\<And>v. preserves g (f v)) \<Longrightarrow> preserves g (py_bind m f)"
  unfolding preserves_def py_bind_def
  by (auto split: prod.splits sum.splits) (metis snd_conv)+

lemma preserves_read_frame: "preserves g (read_frame r)"
  by (simp add: preserves_def read_frame_def)

lemma preserves_if: "preserves g m1 \<Longrightarrow> preserves g m2 \<Longrightarrow> preserves g (if b then m1 else m2)"
  by simp

lemma preserves_case_option:
  "preserves g m1 \<Longrightarrow> (\<And>v. preserves g (m2 v)) \<Longrightarrow> preserves g (case opt of None \<Rightarrow> m1 | Some v \<Rightarrow> m2 v)"
  by (cases opt) simp_all

lemma preserves_case_prod: "(\<And>u v. preserves g (f u v)) \<Longrightarrow> preserves g (case p of (u, v) \<Rightarrow> f u v)"
  by (cases p) simp

lemma preserves_let: "(\<And>v. preserves g (f v)) \<Longrightarrow> preserves g (let v = w in f v)"
  by simp

lemma preserves_emit_all_heap: "preserves heap (emit_all a cs)"
  by (simp add: preserves_def emit_all_def)

lemma preserves_emit_all_nfigs: "preserves nfigs (emit_all a cs)"
  by (simp add: preserves_def emit_all_def)

lemma preserves_emit_heap: "preserves heap (emit a c)"
  by (simp add: emit_def preserves_emit_all_heap)

lemma preserves_emit_nfigs: "preserves nfigs (emit a c)"
  by (simp add: emit_def preserves_emit_all_nfigs)

lemma preserves_new_frame_nfigs: "preserves nfigs (new_frame d)"
  by (simp add: preserves_def new_frame_def)

lemma preserves_write_frame_nfigs: "preserves nfigs (write_frame r d)"
  by (simp add: preserves_def write_frame_def)

lemma preserves_new_frame_canvas: "preserves canvas (new_frame d)"
  by (simp add: preserves_def new_frame_def)

lemma preserves_write_frame_canvas: "preserves canvas (write_frame r d)"
  by (simp add: preserves_def write_frame_def)

lemmas preserves_intros = preserves_ret preserves_raise preserves_lift preserves_bind
  preserves_read_frame preserves_if preserves_case_option preserves_case_prod preserves_let
  preserves_emit_all_heap preserves_emit_all_nfigs preserves_emit_heap preserves_emit_nfigs
  preserves_new_frame_nfigs preserves_write_frame_nfigs preserves_new_frame_canvas
  preserves_write_frame_canvas

lemma preserves_hue_iteration_heap: "preserves heap (hue_iteration env a axs d xc yc h palette p)"
  unfolding hue_iteration_def by (intro preserves_intros)

lemma preserves_hue_iteration_nfigs: "preserves nfigs (hue_iteration env a axs d xc yc h palette p)"
  unfolding hue_iteration_def by (intro preserves_intros)

lemma preserves_hue_loop_heap: "preserves heap (hue_loop env a axs d xc yc h palette ps models)"
  by (induction ps arbitrary: models) (auto intro!: preserves_intros preserves_hue_iteration_heap)

lemma preserves_hue_loop_nfigs: "preserves nfigs (hue_loop env a axs d xc yc h palette ps models)"
  by (induction ps arbitrary: models) (auto intro!: preserves_intros preserves_hue_iteration_nfigs)

lemma preserves_plot_layers_heap: "preserves heap (plot_layers env a axs df xc yc h)"
  unfolding plot_layers_def by (intro preserves_intros preserves_hue_loop_heap)

lemma preserves_plot_layers_nfigs: "preserves nfigs (plot_layers env a axs df xc yc h)"
  unfolding plot_layers_def by (intro preserves_intros preserves_hue_loop_nfigs)

lemma preserves_universe_ci_heap: "preserves heap (universe_ci env axs x y ym)"
  unfolding universe_ci_def by (intro preserves_intros)

lemma preserves_universe_ci_nfigs: "preserves nfigs (universe_ci env axs x y ym)"
  unfolding universe_ci_def by (intro preserves_intros)

lemma preserves_universe_model_heap: "preserves heap (universe_model env a axs df xc yc)"
  unfolding universe_model_def by (intro preserves_intros preserves_universe_ci_heap)

lemma preserves_universe_model_nfigs: "preserves nfigs (universe_model env a axs df xc yc)"
  unfolding universe_model_def by (intro preserves_intros preserves_universe_ci_nfigs)

lemma preserves_legend_loop_nfigs: "preserves nfigs (legend_loop env a df h models al ps legend)"
  by (induction ps arbitrary: legend) (auto intro!: preserves_intros)

lemma preserves_group_legend_nfigs: "preserves nfigs (group_legend env a df h cols models al legend)"
  unfolding group_legend_def by (intro preserves_intros preserves_legend_loop_nfigs)

lemma preserves_annotate_points_heap: "preserves heap (annotate_points a axs df xc yc)"
  unfolding annotate_points_def by (intro preserves_intros)

lemma preserves_annotate_points_nfigs: "preserves nfigs (annotate_points a axs df xc yc)"
  unfolding annotate_points_def by (intro preserves_intros)

lemma preserves_line45_heap: "preserves heap (line45 env axs)"
  by (simp add: preserves_def line45_def Let_def py_bind_def emit_all_def emit_def split: prod.splits)

lemma preserves_line45_nfigs: "preserves nfigs (line45 env axs)"
  by (simp add: preserves_def line45_def Let_def py_bind_def emit_all_def emit_def split: prod.splits)

lemma preserves_finish_heap: "preserves heap (finish a axs df xc yc legend)"
  unfolding finish_def by (intro preserves_intros)

lemma preserves_finish_nfigs: "preserves nfigs (finish a axs df xc yc legend)"
  unfolding finish_def by (intro preserves_intros)

lemma preserves_df_copy_nfigs: "preserves nfigs (df_copy r)"
  unfolding df_copy_def by (intro preserves_intros)

lemma preserves_df_dropna_nfigs: "preserves nfigs (df_dropna r)"
  unfolding df_dropna_def by (intro preserves_intros)

lemma preserves_infer_columns_nfigs: "preserves nfigs (infer_columns a df)"
  unfolding infer_columns_def by (intro preserves_intros)

text \<open>The objects that exist on entry: a write at a later address leaves them alone.\<close>

lemma frame_safe_preserves: "preserves heap m \<Longrightarrow> frame_safe L m"
  by (simp add: preserves_def frame_safe_def)

lemma frame_safe_new_frame: "frame_safe L (new_frame d)"
  by (simp add: frame_safe_def new_frame_def)

lemma frame_safe_write_frame: "L \<le> r \<Longrightarrow> frame_safe L (write_frame r d)"
  by (simp add: frame_safe_def write_frame_def)

lemma frame_safe_bind:
  assumes "frame_safe L m" and "\<And>v. frame_safe L (f v)"
  shows "frame_safe L (py_bind m f)"
  unfolding frame_safe_def
proof (intro allI impI)
  fix s :: pstate assume L: "L \<le> length (heap s)"
  obtain r s1 where ms: "m s = (r, s1)" by (cases "m s")
  have s1: "L \<le> length (heap s1) \<and> take L (heap s1) = take L (heap s)"
    using assms(1) L ms unfolding frame_safe_def by (metis snd_conv)
  show "L \<le> length (heap (snd (py_bind m f s))) \<and> take L (heap (snd (py_bind m f s))) = take L (heap s)"
  proof (cases r)
    case (Inl e)
    then show ?thesis using ms s1 by (simp add: py_bind_def)
  next
    case (Inr v)
    have "L \<le> length (heap (snd (f v s1))) \<and> take L (heap (snd (f v s1))) = take L (heap s1)"
      using assms(2) s1 unfolding frame_safe_def by blast
    then show ?thesis using ms s1 Inr by (simp add: py_bind_def)
  qed
qed

lemma frame_safe_bind_val:
  assumes "frame_safe L m"
    and "\<And>s v. L \<le> length (heap s) \<Longrightarrow> fst (m s) = Inr v \<Longrightarrow> V v"
    and "\<And>v. V v \<Longrightarrow> frame_safe L (f v)"
  shows "frame_safe L (py_bind m f)"
  unfolding frame_safe_def
proof (intro allI impI)
  fix s :: pstate assume L: "L \<le> length (heap s)"
  obtain r s1 where ms: "m s = (r, s1)" by (cases "m s")
  have s1: "L \<le> length (heap s1) \<and> take L (heap s1) = take L (heap s)"
    using assms(1) L ms unfolding frame_safe_def by (metis snd_conv)
  show "L \<le> length (heap (snd (py_bind m f s))) \<and> take L (heap (snd (py_bind m f s))) = take L (heap s)"
  proof (cases r)
    case (Inl e)
    then show ?thesis using ms s1 by (simp add: py_bind_def)
  next
    case (Inr v)
    have "V v" using assms(2) [OF L, of v] ms Inr by simp
    then have "L \<le> length (heap (snd (f v s1))) \<and> take L (heap (snd (f v s1))) = take L (heap s1)"
      using assms(3) s1 unfolding frame_safe_def by blast
    then show ?thesis using ms s1 Inr by (simp add: py_bind_def)
  qed
qed

lemma frame_safe_if: "frame_safe L m1 \<Longrightarrow> frame_safe L m2 \<Longrightarrow> frame_safe L (if b then m1 else m2)"
  by simp

lemma frame_safe_case_option:
  "frame_safe L m1 \<Longrightarrow> (\<And>v. frame_safe L (m2 v)) \<Longrightarrow> frame_safe L (case opt of None \<Rightarrow> m1 | Some v \<Rightarrow> m2 v)"
  by (cases opt) simp_all

lemmas frame_safe_pure = frame_safe_preserves [OF preserves_ret] frame_safe_preserves [OF preserves_raise]
  frame_safe_preserves [OF preserves_lift] frame_safe_preserves [OF preserves_read_frame]

lemma frame_safe_df_copy: "frame_safe L (df_copy r)"
  unfolding df_copy_def by (intro frame_safe_bind frame_safe_pure frame_safe_new_frame)

lemma frame_safe_df_dropna: "frame_safe L (df_dropna r)"
  unfolding df_dropna_def by (intro frame_safe_bind frame_safe_pure frame_safe_new_frame)

lemma df_copy_ref: "fst (df_copy r s) = Inr v \<Longrightarrow> v = length (heap s)"
  by (simp add: df_copy_def py_bind_def read_frame_def new_frame_def)

lemma df_dropna_ref: "fst (df_dropna r s) = Inr v \<Longrightarrow> v = length (heap s)"
  by (simp add: df_dropna_def py_bind_def read_frame_def new_frame_def)

lemma frame_safe_infer_columns: "frame_safe L (infer_columns a df)"
  unfolding infer_columns_def
  by (intro frame_safe_bind frame_safe_pure frame_safe_new_frame frame_safe_if frame_safe_case_option)

lemma infer_columns_ref:
  assumes "fst (infer_columns a df s) = Inr v"
  shows "snd (snd (snd v)) = df \<or> snd (snd (snd v)) = length (heap s)"
  using assms
  by (auto simp: infer_columns_def py_bind_def read_frame_def new_frame_def ret_def raise_def lift_def
      split: option.splits if_splits sum.splits prod.splits)

lemma frame_safe_legend_loop: "L \<le> df \<Longrightarrow> frame_safe L (legend_loop env a df h models al ps legend)"
proof (induction ps arbitrary: legend)
  case Nil
  then show ?case by (simp add: frame_safe_pure)
next
  case (Cons p ps)
  obtain color hue_id where p: "p = (color, hue_id)" by (cases p)
  show ?case
    unfolding p legend_loop.simps
    by (intro frame_safe_bind frame_safe_pure frame_safe_write_frame Cons frame_safe_if frame_safe_case_option)
qed

lemma frame_safe_group_legend: "L \<le> df \<Longrightarrow> frame_safe L (group_legend env a df h cols models al legend)"
  unfolding group_legend_def
  by (intro frame_safe_bind frame_safe_pure frame_safe_write_frame frame_safe_case_option frame_safe_legend_loop)

lemma frame_safe_case_prod: "(\<And>u v. frame_safe L (f u v)) \<Longrightarrow> frame_safe L (case p of (u, v) \<Rightarrow> f u v)"
  by (cases p) simp

lemma preserves_get_fig_ax_heap: "preserves heap (get_fig_ax supplied)"
  by (simp add: get_fig_ax_def preserves_def ret_def split: option.splits)

lemma frame_safe_draw_all: "L \<le> df \<Longrightarrow> frame_safe L (draw_all env a fig axs df xc yc h)"
  unfolding draw_all_def
  by (intro frame_safe_bind frame_safe_case_prod frame_safe_if frame_safe_pure
      frame_safe_group_legend
      frame_safe_preserves [OF preserves_plot_layers_heap]
      frame_safe_preserves [OF preserves_universe_model_heap]
      frame_safe_preserves [OF preserves_annotate_points_heap]
      frame_safe_preserves [OF preserves_line45_heap]
      frame_safe_preserves [OF preserves_finish_heap])

lemma frame_safe_after_columns:
  assumes "L \<le> snd (snd (snd v))"
  shows "frame_safe L (case v of (xc, yc, h, df) \<Rightarrow>
           py_bind (get_fig_ax (ax a)) (\<lambda>(fig, axs). draw_all env a fig axs df xc yc h))"
proof -
  obtain xc yc h df where v: "v = (xc, yc, h, df)" by (cases v) auto
  have df: "L \<le> df" using assms v by simp
  show ?thesis
    unfolding v prod.case
    by (intro frame_safe_bind frame_safe_case_prod frame_safe_draw_all [OF df]
        frame_safe_preserves [OF preserves_get_fig_ax_heap])
qed

lemma frame_safe_plot_scatter: "frame_safe L (plot_scatter env a df0)"
  unfolding plot_scatter_def
proof (rule frame_safe_bind_val [where V = "\<lambda>v. L \<le> v"])
  show "frame_safe L (df_copy df0)" by (rule frame_safe_df_copy)
  show "\<And>s v. L \<le> length (heap s) \<Longrightarrow> fst (df_copy df0 s) = Inr v \<Longrightarrow> L \<le> v"
    using df_copy_ref by blast
next
  fix copied :: nat assume "L \<le> copied"
  show "frame_safe L (py_bind (df_dropna copied) (\<lambda>dropped.
     py_bind (infer_columns a dropped) (\<lambda>(xc, yc, h, df).
     py_bind (get_fig_ax (ax a)) (\<lambda>(fig, axs). draw_all env a fig axs df xc yc h))))"
  proof (rule frame_safe_bind_val [where V = "\<lambda>v. L \<le> v"])
    show "frame_safe L (df_dropna copied)" by (rule frame_safe_df_dropna)
    show "\<And>s v. L \<le> length (heap s) \<Longrightarrow> fst (df_dropna copied s) = Inr v \<Longrightarrow> L \<le> v"
      using df_dropna_ref by blast
  next
    fix dropped :: nat assume d: "L \<le> dropped"
    show "frame_safe L (py_bind (infer_columns a dropped) (\<lambda>(xc, yc, h, df).
       py_bind (get_fig_ax (ax a)) (\<lambda>(fig, axs). draw_all env a fig axs df xc yc h)))"
    proof (rule frame_safe_bind_val [where V = "\<lambda>v. L \<le> snd (snd (snd v))"])
      show "frame_safe L (infer_columns a dropped)" by (rule frame_safe_infer_columns)
      show "\<And>s v. L \<le> length (heap s) \<Longrightarrow> fst (infer_columns a dropped s) = Inr v \<Longrightarrow> L \<le> snd (snd (snd v))"
        using infer_columns_ref d by fastforce
    next
      fix v :: "string \<times> string \<times> string option \<times> nat"
      assume "L \<le> snd (snd (snd v))"
      then show "frame_safe L (case v of (xc, yc, h, df) \<Rightarrow>
           py_bind (get_fig_ax (ax a)) (\<lambda>(fig, axs). draw_all env a fig axs df xc yc h))"
        by (rule frame_safe_after_columns)
    qed
  qed
qed

lemma py_bind_Inr:
  assumes "py_bind m f s = (Inr r, s')"
  obtains v s1 where "m s = (Inr v, s1)" and "f v s1 = (Inr r, s')"
  using assms by (auto simp: py_bind_def split: prod.splits sum.splits)

lemma preservesD: "preserves g m \<Longrightarrow> m s = (r, s') \<Longrightarrow> g s' = g s"
  unfolding preserves_def by (metis snd_conv)

lemma returns_only_ret: "returns_only v (ret v)"
  by (simp add: returns_only_def ret_def)

lemma returns_only_bind: "(\<And>u. returns_only v (f u)) \<Longrightarrow> returns_only v (py_bind m f)"
  unfolding returns_only_def py_bind_def
  by (auto split: prod.splits sum.splits)

lemma returns_only_case_prod: "(\<And>a b. returns_only v (f a b)) \<Longrightarrow> returns_only v (case p of (a, b) \<Rightarrow> f a b)"
  by (cases p) simp

lemma returns_onlyD: "returns_only v m \<Longrightarrow> m s = (Inr r, s') \<Longrightarrow> r = v"
  unfolding returns_only_def by (metis fst_conv)

lemma returns_only_draw_all: "returns_only fig (draw_all env a fig axs df xc yc h)"
  unfolding draw_all_def by (intro returns_only_bind returns_only_case_prod returns_only_ret)

lemma preserves_draw_all_nfigs: "preserves nfigs (draw_all env a fig axs df xc yc h)"
  unfolding draw_all_def
  by (intro preserves_intros preserves_plot_layers_nfigs preserves_universe_model_nfigs
      preserves_group_legend_nfigs preserves_annotate_points_nfigs preserves_line45_nfigs
      preserves_finish_nfigs)

lemma plot_scatter_returns:
  assumes "plot_scatter env a df0 s = (Inr fig, s')"
  shows "fig = (case ax a of None \<Rightarrow> Some (Figure (nfigs s)) | Some _ \<Rightarrow> None) \<and>
         nfigs s' = (case ax a of None \<Rightarrow> Suc (nfigs s) | Some _ \<Rightarrow> nfigs s)"
proof -
  from assms [unfolded plot_scatter_def]
  obtain copied s1 where 1: "df_copy df0 s = (Inr copied, s1)"
    and r1: "py_bind (df_dropna copied) (\<lambda>dropped.
       py_bind (infer_columns a dropped) (\<lambda>(xc, yc, h, df).
       py_bind (get_fig_ax (ax a)) (\<lambda>(fig, axs). draw_all env a fig axs df xc yc h))) s1 = (Inr fig, s')"
    by (rule py_bind_Inr)
  from r1 obtain dropped s2 where 2: "df_dropna copied s1 = (Inr dropped, s2)"
    and r2: "py_bind (infer_columns a dropped) (\<lambda>(xc, yc, h, df).
       py_bind (get_fig_ax (ax a)) (\<lambda>(fig, axs). draw_all env a fig axs df xc yc h)) s2 = (Inr fig, s')"
    by (rule py_bind_Inr)
  from r2 obtain v s3 where 3: "infer_columns a dropped s2 = (Inr v, s3)"
    and r3: "(case v of (xc, yc, h, df) \<Rightarrow>
       py_bind (get_fig_ax (ax a)) (\<lambda>(fig, axs). draw_all env a fig axs df xc yc h)) s3 = (Inr fig, s')"
    by (rule py_bind_Inr)
  obtain xc yc h df where v: "v = (xc, yc, h, df)" by (cases v) auto
  from r3 [unfolded v prod.case] obtain w s4 where 4: "get_fig_ax (ax a) s3 = (Inr w, s4)"
    and r4: "(case w of (fig, axs) \<Rightarrow> draw_all env a fig axs df xc yc h) s4 = (Inr fig, s')"
    by (rule py_bind_Inr)
  obtain fig' axs where w: "w = (fig', axs)" by (cases w)
  have n3: "nfigs s3 = nfigs s"
    using preservesD [OF preserves_df_copy_nfigs 1] preservesD [OF preserves_df_dropna_nfigs 2]
      preservesD [OF preserves_infer_columns_nfigs 3] by simp
  have fig': "fig' = (case ax a of None \<Rightarrow> Some (Figure (nfigs s)) | Some _ \<Rightarrow> None)"
    and n4: "nfigs s4 = (case ax a of None \<Rightarrow> Suc (nfigs s) | Some _ \<Rightarrow> nfigs s)"
    using 4 n3 unfolding w by (auto simp: get_fig_ax_def ret_def split: option.splits)
  have "fig = fig'"
    using returns_onlyD [OF returns_only_draw_all] r4 unfolding w prod.case by blast
  moreover have "nfigs s' = nfigs s4"
    using preservesD [OF preserves_draw_all_nfigs] r4 unfolding w prod.case by blast
  ultimately show ?thesis using fig' n4 by simp
qed

lemma preserves_cls_column: "preserves g (cls_column given d j msg)"
  unfolding cls_column_def by (intro preserves_intros)

lemma plot_classification_scatter_returns:
  assumes "plot_classification_scatter env c df0 s = (Inr fig, s')"
  shows "fig = (case cls_ax c of None \<Rightarrow> Some (Figure (nfigs s)) | Some _ \<Rightarrow> None) \<and>
         nfigs s' = (case cls_ax c of None \<Rightarrow> Suc (nfigs s) | Some _ \<Rightarrow> nfigs s)"
proof -
  from assms [unfolded plot_classification_scatter_def]
  obtain d s1 where 1: "read_frame df0 s = (Inr d, s1)" and r1: "py_bind
       (cls_column (cls_x_column c) d 0 ''x_column is not defined for more than on columns'') (\<lambda>xc.
     py_bind (cls_column (cls_y_column c) d 1 ''y_column is not defined for more than on columns'') (\<lambda>yc.
     py_bind (lift (add_quantile_classification env d xc (hue_name c) (num_buckets c) (bins c))) (\<lambda>classified.
     py_bind (new_frame classified) (\<lambda>df.
     plot_scatter env (scatter_args c xc yc) df)))) s1 = (Inr fig, s')"
    by (rule py_bind_Inr)
  from r1 obtain xc s2
    where 2: "cls_column (cls_x_column c) d 0 ''x_column is not defined for more than on columns'' s1 = (Inr xc, s2)"
    and r2: "py_bind (cls_column (cls_y_column c) d 1 ''y_column is not defined for more than on columns'') (\<lambda>yc.
     py_bind (lift (add_quantile_classification env d xc (hue_name c) (num_buckets c) (bins c))) (\<lambda>classified.
     py_bind (new_frame classified) (\<lambda>df.
     plot_scatter env (scatter_args c xc yc) df))) s2 = (Inr fig, s')"
    by (rule py_bind_Inr)
  from r2 obtain yc s3
    where 3: "cls_column (cls_y_column c) d 1 ''y_column is not defined for more than on columns'' s2 = (Inr yc, s3)"
    and r3: "py_bind (lift (add_quantile_classification env d xc (hue_name c) (num_buckets c) (bins c))) (\<lambda>classified.
     py_bind (new_frame classified) (\<lambda>df.
     plot_scatter env (scatter_args c xc yc) df)) s3 = (Inr fig, s')"
    by (rule py_bind_Inr)
  from r3 obtain classified s4
    where 4: "lift (add_quantile_classification env d xc (hue_name c) (num_buckets c) (bins c)) s3 = (Inr classified, s4)"
    and r4: "py_bind (new_frame classified) (\<lambda>df.
     plot_scatter env (scatter_args c xc yc) df) s4 = (Inr fig, s')"
    by (rule py_bind_Inr)
  from r4 obtain df s5 where 5: "new_frame classified s4 = (Inr df, s5)"
    and r5: "plot_scatter env (scatter_args c xc yc) df s5 = (Inr fig, s')"
    by (rule py_bind_Inr)
  have n5: "nfigs s5 = nfigs s"
    using preservesD [OF preserves_read_frame 1, of nfigs] preservesD [OF preserves_cls_column 2, of nfigs]
      preservesD [OF preserves_cls_column 3, of nfigs]
      preservesD [OF preserves_lift 4, of nfigs] preservesD [OF preserves_new_frame_nfigs 5]
    by simp
  have "ax (scatter_args c xc yc) = cls_ax c"
    by (simp add: scatter_args_def)
  then show ?thesis
    using plot_scatter_returns [OF r5] by (simp add: n5 split: option.splits)
qed

lemmas py_defs = ret_def raise_def py_bind_def lift_def read_frame_def new_frame_def write_frame_def
  emit_all_def emit_def Let_def

lemmas frame_defs = df_col_def dropna_def sort_values_def sort_by_def melt_def df_set_col_def
  df_set_where_def cell_at_def

lemmas plot_defs = plot_scatter_def draw_all_def df_copy_def df_dropna_def infer_columns_def
  hue_model_label_def get_fig_ax_def group_data_def hue_iteration_def plot_layers_def sample_data_def
  universe_ci_def universe_model_def group_legend_def annotation_calls_def annotation_palette_def
  annotate_points_def line45_def axis_label_def finish_def

lemmas sample_defs = sample_env_def strict_env_def sample_ols_x_def sample_rows_def frame_xyg_def
  frame_xycolor_def frame_gxy_def frame_xy_def frame_5_def start_def default_args_def

lemmas eval_defs = plot_defs py_defs frame_defs sample_defs

subsection \<open>Column inference\<close>

text \<open>
  C4. For a table of five columns, no group column and no \<open>x_column\<close> (with or without a
  \<open>y_column\<close>), \<open>plot_scatter\<close> raises the \<open>ValueError\<close> of line 64, which is what the
  specification calls \<open>AmbiguousColumnsError\<close>, and it raises it before anything is
  rendered: no figure has been created and the canvas has not been drawn on.
\<close>

theorem ambiguous_columns_raise_before_drawing:
  assumes "length (columns (heap s ! df0)) = 5" and "hue a = None" and "x_column a = None"
  shows "fst (plot_scatter env a df0 s) = Inl (ValueError ''x_column is not defined for more than on columns'') \<and>
         canvas (snd (plot_scatter env a df0 s)) = canvas s \<and>
         nfigs (snd (plot_scatter env a df0 s)) = nfigs s"
  using assms
  by (simp add: plot_scatter_def df_copy_def df_dropna_def infer_columns_def py_defs dropna_def)

theorem ambiguous_columns_raise_before_drawing_witness:
  "length (columns (heap (start frame_5) ! 0)) = 5 \<and>
   fst (plot_scatter sample_env default_args 0 (start frame_5)) =
     Inl (ValueError ''x_column is not defined for more than on columns'') \<and>
   canvas (snd (plot_scatter sample_env default_args 0 (start frame_5))) = [] \<and>
   nfigs (snd (plot_scatter sample_env default_args 0 (start frame_5))) = 0"
  using ambiguous_columns_raise_before_drawing [of "start frame_5" 0 default_args sample_env]
  by (simp add: start_def frame_5_def default_args_def)

text \<open>
  C5, as stated, fails in its second half: with three columns and a group column the code
  takes the first two columns by position, group column or not. For the columns
  \<open>g, x, y\<close> and \<open>hue = g\<close> it resolves x to the group column \<open>g\<close> and y to \<open>x\<close>, not
  to the two columns that are not the group, and \<open>plot_scatter\<close> labels its axes so.
\<close>

theorem infer_columns_counterexample:
  "columns frame_gxy = [''g'', ''x'', ''y''] \<and>
   fst (infer_columns (default_args\<lparr>hue := Some ''g''\<rparr>) 0 (start frame_gxy)) = Inr (''g'', ''x'', Some ''g'', 0) \<and>
   (FigureAxes 0, SetXYLabels (Some ''x = g'') (Some ''y = x'') 10)
     \<in> set (canvas (snd (plot_scatter sample_env (default_args\<lparr>hue := Some ''g''\<rparr>) 0 (start frame_gxy))))"
  by (simp add: eval_defs upt_rec [of 0] upt_rec [of "Suc 0"] upt_rec [of 2] numeral_2_eq_2 numeral_3_eq_3)

text \<open>
  C5, amended. With \<open>x_column\<close> and \<open>y_column\<close> not given, a table of two columns, and a
  table of three columns with a group column supplied, resolve x to the first column and
  y to the second, by position; the frame and the group column stay as they are. For
  three columns these are the two columns other than the group only when the group column
  is the third.
\<close>

theorem infer_columns_positional:
  assumes "length (columns (heap s ! df)) = 2 \<or> (length (columns (heap s ! df)) = 3 \<and> hue a \<noteq> None)"
    and "x_column a = None" and "y_column a = None"
  shows "infer_columns a df s = (Inr (columns (heap s ! df) ! 0, columns (heap s ! df) ! 1, hue a, df), s)"
  using assms by (auto simp: infer_columns_def py_defs)

theorem infer_columns_positional_witness:
  "infer_columns default_args 0 (start frame_xy) = (Inr (''x'', ''y'', None, 0), start frame_xy) \<and>
   infer_columns (default_args\<lparr>hue := Some ''g''\<rparr>) 0 (start frame_xyg)
     = (Inr (''x'', ''y'', Some ''g'', 0), start frame_xyg)"
  using infer_columns_positional [of "start frame_xy" 0 default_args]
    infer_columns_positional [of "start frame_xyg" 0 "default_args\<lparr>hue := Some ''g''\<rparr>"]
  by (simp add: start_def frame_xy_def frame_xyg_def default_args_def)

subsection \<open>The returned figure and the caller's frame\<close>

text \<open>
  C9. When \<open>plot_scatter\<close> returns, it returns a figure that did not exist before (pyplot's
  next figure) if no axes were supplied, and \<open>None\<close> if the caller supplied axes;
  \<open>plot_classification_scatter\<close> returns the same for its own \<open>ax\<close>.
\<close>

theorem returns_figure_iff_no_axes:
  "(plot_scatter env a df0 s = (Inr fig, s') \<longrightarrow>
      fig = (case ax a of None \<Rightarrow> Some (Figure (nfigs s)) | Some _ \<Rightarrow> None) \<and>
      nfigs s' = (case ax a of None \<Rightarrow> Suc (nfigs s) | Some _ \<Rightarrow> nfigs s)) \<and>
   (plot_classification_scatter env c df1 t = (Inr fig1, t') \<longrightarrow>
      fig1 = (case cls_ax c of None \<Rightarrow> Some (Figure (nfigs t)) | Some _ \<Rightarrow> None) \<and>
      nfigs t' = (case cls_ax c of None \<Rightarrow> Suc (nfigs t) | Some _ \<Rightarrow> nfigs t))"
  using plot_scatter_returns plot_classification_scatter_returns by blast

theorem returns_figure_iff_no_axes_witness:
  "plot_scatter sample_env default_args 0 (start frame_xy) =
     (Inr (Some (Figure 0)), snd (plot_scatter sample_env default_args 0 (start frame_xy))) \<and>
   nfigs (snd (plot_scatter sample_env default_args 0 (start frame_xy))) = 1 \<and>
   plot_scatter sample_env (default_args\<lparr>ax := Some (CallerAxes 7)\<rparr>) 0 (start frame_xy) =
     (Inr None, snd (plot_scatter sample_env (default_args\<lparr>ax := Some (CallerAxes 7)\<rparr>) 0 (start frame_xy))) \<and>
   plot_classification_scatter sample_env sample_cls_args 0 (start frame_xy) =
     (Inr (Some (Figure 0)), snd (plot_classification_scatter sample_env sample_cls_args 0 (start frame_xy)))"
proof -
  have 1: "fst (plot_scatter sample_env default_args 0 (start frame_xy)) = Inr (Some (Figure 0))"
    by (simp add: plot_defs py_defs frame_defs sample_defs)
  have 2: "fst (plot_scatter sample_env (default_args\<lparr>ax := Some (CallerAxes 7)\<rparr>) 0 (start frame_xy)) = Inr None"
    by (simp add: plot_defs py_defs frame_defs sample_defs)
  have pre: "plot_classification_scatter sample_env sample_cls_args 0 (start frame_xy) =
      plot_scatter sample_env (scatter_args sample_cls_args ''x'' ''y'') 1
        \<lparr>heap = [frame_xy, \<lparr>columns = [''x'', ''y'', ''hue''],
                  rows = [[Num 1, Num 1, Str ''q1''], [Num 2, Num 3, Str ''q1''], [Num 3, NA, Str ''q1'']]\<rparr>],
         nfigs = 0, canvas = []\<rparr>"
    by (simp add: plot_classification_scatter_def cls_column_def sample_cls_args_def
        py_defs df_set_col_def sample_env_def start_def frame_xy_def)
  have 3: "fst (plot_classification_scatter sample_env sample_cls_args 0 (start frame_xy)) = Inr (Some (Figure 0))"
    unfolding pre
    by (simp add: scatter_args_def sample_cls_args_def plot_defs py_defs frame_defs sample_defs)
  have e1: "plot_scatter sample_env default_args 0 (start frame_xy) =
     (Inr (Some (Figure 0)), snd (plot_scatter sample_env default_args 0 (start frame_xy)))"
    using 1 by (metis prod.collapse)
  have e2: "plot_scatter sample_env (default_args\<lparr>ax := Some (CallerAxes 7)\<rparr>) 0 (start frame_xy) =
     (Inr None, snd (plot_scatter sample_env (default_args\<lparr>ax := Some (CallerAxes 7)\<rparr>) 0 (start frame_xy)))"
    using 2 by (metis prod.collapse)
  have e3: "plot_classification_scatter sample_env sample_cls_args 0 (start frame_xy) =
     (Inr (Some (Figure 0)), snd (plot_classification_scatter sample_env sample_cls_args 0 (start frame_xy)))"
    using 3 by (metis prod.collapse)
  have "nfigs (snd (plot_scatter sample_env default_args 0 (start frame_xy))) = 1"
    using returns_figure_iff_no_axes [of sample_env default_args 0 "start frame_xy" "Some (Figure 0)"
        "snd (plot_scatter sample_env default_args 0 (start frame_xy))"] e1
    by (simp add: default_args_def start_def)
  then show ?thesis using e1 e2 e3 by simp
qed

text \<open>
  C10. Whatever \<open>plot_scatter\<close> does, and also when it raises, the frame the caller passed
  is afterwards what it was: the rows are dropped, the table is melted and the column
  \<open>'color'\<close> is written on frames allocated after entry.
\<close>

theorem plot_scatter_leaves_frame:
  assumes "df0 < length (heap s)"
  shows "heap (snd (plot_scatter env a df0 s)) ! df0 = heap s ! df0"
proof -
  have "take (length (heap s)) (heap (snd (plot_scatter env a df0 s))) = take (length (heap s)) (heap s)"
    using frame_safe_plot_scatter [of "length (heap s)" env a df0] unfolding frame_safe_def by simp
  then have "take (length (heap s)) (heap (snd (plot_scatter env a df0 s))) ! df0 = heap s ! df0"
    by simp
  then show ?thesis using assms by simp
qed

theorem plot_scatter_leaves_frame_witness:
  "heap (snd (plot_scatter sample_env default_args 0 (start frame_xy))) =
     [frame_xy,
      frame_xy,
      \<lparr>columns = [''x'', ''y'', ''color''],
       rows = [[Num 1, Num 1, Str ''darkblue''], [Num 2, Num 3, Str ''darkblue'']]\<rparr>] \<and>
   heap (snd (plot_scatter sample_env default_args 0 (start frame_xy))) ! 0 = frame_xy"
proof -
  have a: "heap (snd (plot_scatter sample_env default_args 0 (start frame_xy))) =
     [frame_xy,
      frame_xy,
      \<lparr>columns = [''x'', ''y'', ''color''],
       rows = [[Num 1, Num 1, Str ''darkblue''], [Num 2, Num 3, Str ''darkblue'']]\<rparr>]"
    by (simp add: eval_defs)
  have b: "heap (snd (plot_scatter sample_env default_args 0 (start frame_xy))) ! 0 = frame_xy"
    using plot_scatter_leaves_frame [of 0 "start frame_xy" sample_env default_args]
    by (simp add: start_def)
  show ?thesis
    using a b by (rule conjI)
qed

subsection \<open>Groups, curves and the legend\<close>

text \<open>
  C3 fails where the group column is itself named \<open>'color'\<close>: line 155 overwrites that
  column with \<open>color0\<close> before line 157 reads the groups again, although the loop of
  lines 88-112 has fitted and drawn the groups read before. For the sample rows with the
  groups \<open>a\<close> and \<open>b\<close> in a column \<open>color\<close> and \<open>order = 0\<close>, the legend gets one
  group entry, labelled \<open>darkblue\<close>; with the default order the lookup of that label in
  \<open>estimated_reg_models\<close> raises \<open>KeyError\<close>. The same rows with the group column named
  \<open>g\<close> give what the claim says: the entries \<open>a\<close>, \<open>b\<close> in the order of their first
  occurrence, with the palette's first two colours, after the entry of the whole sample.
\<close>

theorem name_collision_loses_groups:
  "pd_unique (map (\<lambda>r. cell_at r 2) (rows frame_xycolor)) = [Str ''a'', Str ''b''] \<and>
   legends (canvas (snd (plot_scatter sample_env (default_args\<lparr>hue := Some ''color'', order := 0\<rparr>) 0
                           (start frame_xycolor))))
     = [([Str ''Full sample:  R2=0%'', Str ''darkblue''], [''darkblue'', ''C0''])] \<and>
   fst (plot_scatter sample_env (default_args\<lparr>hue := Some ''color''\<rparr>) 0 (start frame_xycolor))
     = Inl (KeyError ''darkblue'') \<and>
   legends (canvas (snd (plot_scatter sample_env (default_args\<lparr>hue := Some ''g'', order := 0\<rparr>) 0
                           (start frame_xyg))))
     = [([Str ''Full sample:  R2=0%'', Str ''a'', Str ''b''], [''darkblue'', ''C0'', ''C1''])]"
  by (simp add: eval_defs)














text \<open>
  C7, as stated, fails: the code has no check of the number of rows and no error of its
  own for it. The group \<open>b\<close> of the sample has one row, and \<open>order = 2\<close> with an intercept
  asks for three coefficients; with a solver that accepts this, \<open>plot_scatter\<close> returns its
  figure, and with a solver that raises, \<open>plot_scatter\<close> raises the solver's error.
\<close>

theorem insufficient_rows_counterexample:
  "group_data frame_xyg ''g'' ''x'' ''y'' (Str ''b'')
     = Inr (\<lparr>columns = [''x'', ''y'', ''g''], rows = [[Num 2, Num 3, Str ''b'']]\<rparr>, [Num 2], [Num 3]) \<and>
   get_ols_x sample_env [Num 2] 2 True = Inr [[1, 2, 4]] \<and>
   fst (plot_scatter sample_env (default_args\<lparr>hue := Some ''g''\<rparr>) 0 (start frame_xyg))
     = Inr (Some (Figure 0)) \<and>
   fst (plot_scatter strict_env (default_args\<lparr>hue := Some ''g''\<rparr>) 0 (start frame_xyg))
     = Inl (DelegateError ''singular matrix'')"
  by (simp add: eval_defs upt_rec [of 0] upt_rec [of "Suc 0"] upt_rec [of 2] numeral_2_eq_2 numeral_3_eq_3)

text \<open>
  C7, amended. For every group, however few rows it has, \<open>plot_scatter\<close> checks no
  row count and raises no error of its own: the design matrix and the fit are the
  delegates' calls on the group's rows sorted by x. When either of them raises, the turn
  of the loop raises that same error and draws nothing, and when the solver returns a
  model, that model is the group's.
\<close>

theorem group_fit_is_the_solvers:
  assumes "group_data d h xc yc hue_id = Inr (data_hue, x, y)"
  shows "(\<forall>e. get_ols_x env x (order a) (fit_intercept a) = Inl e \<longrightarrow>
            hue_iteration env a axs d xc yc h palette (idx, hue_id) s = (Inl e, s)) \<and>
         (\<forall>x1 e. get_ols_x env x (order a) (fit_intercept a) = Inr x1 \<longrightarrow> ols_fit env y x1 = Inl e \<longrightarrow>
            hue_iteration env a axs d xc yc h palette (idx, hue_id) s = (Inl e, s)) \<and>
         (\<forall>x1 m. get_ols_x env x (order a) (fit_intercept a) = Inr x1 \<longrightarrow> ols_fit env y x1 = Inr m \<longrightarrow>
            idx < length palette \<longrightarrow>
            fst (hue_iteration env a axs d xc yc h palette (idx, hue_id) s) = Inr m)"
  using assms
  by (auto simp: hue_iteration_def py_defs split: option.splits)

theorem group_fit_is_the_solvers_witness:
  "hue_iteration strict_env default_args (FigureAxes 0) frame_xyg ''x'' ''y'' ''g'' [''C0'', ''C1'']
      (1, Str ''b'') (start frame_xyg) = (Inl (DelegateError ''singular matrix''), start frame_xyg) \<and>
   fst (hue_iteration sample_env default_args (FigureAxes 0) frame_xyg ''x'' ''y'' ''g'' [''C0'', ''C1'']
      (1, Str ''b'') (start frame_xyg)) = Inr 1"
proof -
  have g: "group_data frame_xyg ''g'' ''x'' ''y'' (Str ''b'')
     = Inr (\<lparr>columns = [''x'', ''y'', ''g''], rows = [[Num 2, Num 3, Str ''b'']]\<rparr>, [Num 2], [Num 3])"
    by (simp add: group_data_def frame_defs sample_defs)
  have x1: "get_ols_x strict_env [Num 2] (order default_args) (fit_intercept default_args) = Inr [[1, 2, 4]]"
    by (simp add: sample_defs upt_rec [of 0] upt_rec [of "Suc 0"] upt_rec [of 2] numeral_2_eq_2 numeral_3_eq_3)
  have x1': "get_ols_x sample_env [Num 2] (order default_args) (fit_intercept default_args) = Inr [[1, 2, 4]]"
    by (simp add: sample_defs upt_rec [of 0] upt_rec [of "Suc 0"] upt_rec [of 2] numeral_2_eq_2 numeral_3_eq_3)
  have f: "ols_fit strict_env [Num 3] [[1, 2, 4]] = Inl (DelegateError ''singular matrix'')"
    by (simp add: sample_defs)
  have f': "ols_fit sample_env [Num 3] [[1, 2, 4]] = Inr 1"
    by (simp add: sample_defs)
  show ?thesis
    using group_fit_is_the_solvers [OF g, of strict_env default_args "FigureAxes 0" "[''C0'', ''C1'']" 1
        "start frame_xyg"]
      group_fit_is_the_solvers [OF g, of sample_env default_args "FigureAxes 0" "[''C0'', ''C1'']" 1
        "start frame_xyg"] x1 x1' f f'
    by simp
qed

subsection \<open>Annotations\<close>






end
